theory Spec2Isabelle
  imports Complex_Main "HOL-Library.AList" "HOL-Library.Char_ord" "HOL-Library.List_Lexorder"
begin

section \<open>JavaScript numbers\<close>

text \<open>
  A number of the program is an IEEE double. The model keeps the three special values
  apart and takes the finite ones as real numbers: arithmetic on finite values is exact
  (rounding, overflow to an infinity and the sign of zero are not modelled), and the
  special values follow the IEEE rules that JavaScript uses (\<open>Infinity - Infinity\<close>,
  \<open>0 * Infinity\<close> and \<open>0 / 0\<close> are \<open>NaN\<close>; every comparison with \<open>NaN\<close> is false).
\<close>

datatype jsnum = Fin real | PosInf | NegInf | NaN

fun isNaN :: "jsnum \<Rightarrow> bool" where
  "isNaN NaN = True"
| "isNaN _ = False"

fun num_neg :: "jsnum \<Rightarrow> jsnum" where
  "num_neg (Fin a) = Fin (- a)"
| "num_neg PosInf = NegInf"
| "num_neg NegInf = PosInf"
| "num_neg NaN = NaN"

fun num_add :: "jsnum \<Rightarrow> jsnum \<Rightarrow> jsnum" where
  "num_add (Fin a) (Fin b) = Fin (a + b)"
| "num_add (Fin a) PosInf = PosInf"
| "num_add (Fin a) NegInf = NegInf"
| "num_add PosInf (Fin b) = PosInf"
| "num_add PosInf PosInf = PosInf"
| "num_add PosInf NegInf = NaN"
| "num_add NegInf (Fin b) = NegInf"
| "num_add NegInf PosInf = NaN"
| "num_add NegInf NegInf = NegInf"
| "num_add NaN y = NaN"
| "num_add x NaN = NaN"

definition num_sub :: "jsnum \<Rightarrow> jsnum \<Rightarrow> jsnum" where
  "num_sub x y = num_add x (num_neg y)"

text \<open>The infinity with the sign of a nonzero real.\<close>

definition inf_of_sign :: "real \<Rightarrow> jsnum" where
  "inf_of_sign a = (if a = 0 then NaN else if 0 < a then PosInf else NegInf)"

fun num_mul :: "jsnum \<Rightarrow> jsnum \<Rightarrow> jsnum" where
  "num_mul (Fin a) (Fin b) = Fin (a * b)"
| "num_mul (Fin a) PosInf = inf_of_sign a"
| "num_mul (Fin a) NegInf = inf_of_sign (- a)"
| "num_mul PosInf (Fin b) = inf_of_sign b"
| "num_mul NegInf (Fin b) = inf_of_sign (- b)"
| "num_mul PosInf PosInf = PosInf"
| "num_mul PosInf NegInf = NegInf"
| "num_mul NegInf PosInf = NegInf"
| "num_mul NegInf NegInf = PosInf"
| "num_mul NaN y = NaN"
| "num_mul x NaN = NaN"

text \<open>\<open>x ** 2\<close>.\<close>

definition num_sq :: "jsnum \<Rightarrow> jsnum" where
  "num_sq x = num_mul x x"

text \<open>Division; a zero divisor is the positive zero.\<close>

fun num_div :: "jsnum \<Rightarrow> jsnum \<Rightarrow> jsnum" where
  "num_div (Fin a) (Fin b) = (if b = 0 then inf_of_sign a else Fin (a / b))"
| "num_div (Fin a) PosInf = Fin 0"
| "num_div (Fin a) NegInf = Fin 0"
| "num_div PosInf (Fin b) = (if 0 \<le> b then PosInf else NegInf)"
| "num_div NegInf (Fin b) = (if 0 \<le> b then NegInf else PosInf)"
| "num_div PosInf PosInf = NaN"
| "num_div PosInf NegInf = NaN"
| "num_div NegInf PosInf = NaN"
| "num_div NegInf NegInf = NaN"
| "num_div NaN y = NaN"
| "num_div x NaN = NaN"

fun num_sqrt :: "jsnum \<Rightarrow> jsnum" where
  "num_sqrt (Fin a) = (if a < 0 then NaN else Fin (sqrt a))"
| "num_sqrt PosInf = PosInf"
| "num_sqrt NegInf = NaN"
| "num_sqrt NaN = NaN"

fun num_abs :: "jsnum \<Rightarrow> jsnum" where
  "num_abs (Fin a) = Fin \<bar>a\<bar>"
| "num_abs PosInf = PosInf"
| "num_abs NegInf = PosInf"
| "num_abs NaN = NaN"

fun num_lt :: "jsnum \<Rightarrow> jsnum \<Rightarrow> bool" where
  "num_lt (Fin a) (Fin b) = (a < b)"
| "num_lt (Fin a) PosInf = True"
| "num_lt NegInf (Fin b) = True"
| "num_lt NegInf PosInf = True"
| "num_lt x y = False"

definition num_gt :: "jsnum \<Rightarrow> jsnum \<Rightarrow> bool" where
  "num_gt x y = num_lt y x"

text \<open>\<open>Math.min(...nums)\<close> and \<open>Math.max(...nums)\<close>: \<open>NaN\<close> as soon as one argument is.\<close>

definition min2 :: "jsnum \<Rightarrow> jsnum \<Rightarrow> jsnum" where
  "min2 a b = (if isNaN a \<or> isNaN b then NaN else if num_lt b a then b else a)"

definition max2 :: "jsnum \<Rightarrow> jsnum \<Rightarrow> jsnum" where
  "max2 a b = (if isNaN a \<or> isNaN b then NaN else if num_lt a b then b else a)"

definition Math_min :: "jsnum list \<Rightarrow> jsnum" where
  "Math_min nums = fold (\<lambda>x acc. min2 acc x) nums PosInf"

definition Math_max :: "jsnum list \<Rightarrow> jsnum" where
  "Math_max nums = fold (\<lambda>x acc. max2 acc x) nums NegInf"

text \<open>
  \<open>[...nums].sort((a, b) => a - b)\<close>: a stable sort by the comparator. An element moves
  right past another only where the difference is positive; a \<open>NaN\<close> difference counts
  as zero (with a \<open>NaN\<close> in the list ECMAScript leaves the order to the engine, and the
  model takes the order of a stable insertion sort).
\<close>

fun insort_nums :: "jsnum \<Rightarrow> jsnum list \<Rightarrow> jsnum list" where
  "insort_nums x [] = [x]"
| "insort_nums x (y # ys) =
     (if num_gt (num_sub x y) (Fin 0) then y # insort_nums x ys else x # y # ys)"

definition sort_nums :: "jsnum list \<Rightarrow> jsnum list" where
  "sort_nums nums = foldr insort_nums nums []"

section \<open>Values and records\<close>

text \<open>
  A cell holds a value of an open domain. An object (array, date, nested mapping,
  pattern) is opaque: the model keeps its identity, the string its \<open>toString()\<close>
  returns and the string \<open>JSON.stringify\<close> returns for it.
\<close>

datatype jsval =
    Undefined
  | Null
  | Num jsnum
  | Str string
  | Bool bool
  | Obj nat string string

text \<open>
  A record is a list of its own properties; the first entry for a key is its value.
  Inherited properties are not modelled.
\<close>

type_synonym jsrecord = "(string \<times> jsval) list"

definition Object_keys :: "jsrecord \<Rightarrow> string list" where
  "Object_keys row = map fst row"

text \<open>\<open>col in row\<close>\<close>

definition has_key :: "jsrecord \<Rightarrow> string \<Rightarrow> bool" where
  "has_key row col = (map_of row col \<noteq> None)"

text \<open>\<open>row[col]\<close>\<close>

definition get :: "jsrecord \<Rightarrow> string \<Rightarrow> jsval" where
  "get row col = (case map_of row col of None \<Rightarrow> Undefined | Some v \<Rightarrow> v)"

fun typeof :: "jsval \<Rightarrow> string" where
  "typeof Undefined = ''undefined''"
| "typeof Null = ''object''"
| "typeof (Num x) = ''number''"
| "typeof (Str s) = ''string''"
| "typeof (Bool b) = ''boolean''"
| "typeof (Obj r t j) = ''object''"

text \<open>\<open>v !== undefined && v !== null\<close>\<close>

definition notMissing :: "jsval \<Rightarrow> bool" where
  "notMissing v = (v \<noteq> Undefined \<and> v \<noteq> Null)"

text \<open>
  \<open>String(v)\<close>, and \<open>v.toString()\<close> where the program calls it (always on a value that is
  neither null nor undefined). How the engine prints a number is the parameter
  \<open>numToString\<close>.
\<close>

fun toString :: "(jsnum \<Rightarrow> string) \<Rightarrow> jsval \<Rightarrow> string" where
  "toString numToString Undefined = ''undefined''"
| "toString numToString Null = ''null''"
| "toString numToString (Num x) = numToString x"
| "toString numToString (Str s) = s"
| "toString numToString (Bool b) = (if b then ''true'' else ''false'')"
| "toString numToString (Obj r t j) = t"

text \<open>A \<open>Set\<close> as the list of its elements in insertion order: \<open>s.add(x)\<close>.\<close>

definition set_add :: "'a \<Rightarrow> 'a list \<Rightarrow> 'a list" where
  "set_add x s = (if x \<in> set s then s else s @ [x])"

text \<open>\<open>new Set(xs)\<close>\<close>

definition new_Set :: "'a list \<Rightarrow> 'a list" where
  "new_Set xs = fold set_add xs []"

text \<open>
  The sets of values compare with SameValueZero: objects by identity, \<open>NaN\<close> equal to
  itself. \<open>set_size_values vs\<close> is \<open>new Set(vs).size\<close>.
\<close>

fun sameValueZero :: "jsval \<Rightarrow> jsval \<Rightarrow> bool" where
  "sameValueZero (Obj r t j) (Obj r' t' j') = (r = r')"
| "sameValueZero v w = (v = w)"

definition value_set_add :: "jsval \<Rightarrow> jsval list \<Rightarrow> jsval list" where
  "value_set_add x s = (if list_ex (sameValueZero x) s then s else s @ [x])"

definition set_size_values :: "jsval list \<Rightarrow> nat" where
  "set_size_values vs = length (fold value_set_add vs [])"

text \<open>A \<open>Map\<close> is a list of entries in insertion order; \<open>m.get(k) || 0\<close> on a map of counts.\<close>

definition get_or_0 :: "('k \<times> nat) list \<Rightarrow> 'k \<Rightarrow> nat" where
  "get_or_0 m k = (case map_of m k of None \<Rightarrow> 0 | Some c \<Rightarrow> c)"

text \<open>\<open>m.get(k)!\<close> on a map of lists, after the key has been set.\<close>

definition get_list :: "('k \<times> 'v list) list \<Rightarrow> 'k \<Rightarrow> 'v list" where
  "get_list m k = (case map_of m k of None \<Rightarrow> [] | Some s \<Rightarrow> s)"

section \<open>The summary\<close>

record NumericStats =
  min_val :: jsnum
  max_val :: jsnum
  mean :: jsnum
  median :: jsnum
  quartiles :: "jsnum \<times> jsnum \<times> jsnum"
  stddev :: jsnum
  percentiles :: "(nat \<times> jsnum) list"

text \<open>An entry of \<open>top10\<close> is the pair of \<open>value\<close> and \<open>count\<close>.\<close>

record CategoricalStats =
  unique :: nat
  top10 :: "(string \<times> nat) list"
  hhi :: real

record ColumnStats =
  present :: nat
  missing :: nat
  types :: "string list"
  numericStats :: "NumericStats option"
  categoricalStats :: "CategoricalStats option"

record FunctionalDependency =
  from_cols :: "string list"
  to_col :: string

record KeysAndDependencies =
  candidatePrimaryKeys :: "string list list"
  functionalDependencies :: "FunctionalDependency list"

text \<open>An entry of \<open>topCoMissingPairs\<close> is the pair of \<open>pair\<close> and \<open>count\<close>.\<close>

record MissingnessPatterns =
  perColumnRates :: "string \<rightharpoonup> jsnum"
  topCoMissingPairs :: "((string \<times> string) \<times> nat) list"

record OutlierCounts =
  tukeyCount :: nat
  zscoreCount :: nat

record EntropyStats =
  entropy :: real
  tailShareOutsideTop10 :: jsnum

type_synonym AssociationMatrix = "string \<rightharpoonup> (string \<rightharpoonup> jsnum)"

record ProfileSummary =
  rowCount :: nat
  columns :: "string list"
  columnStats :: "string \<rightharpoonup> ColumnStats"
  associationMatrix :: "AssociationMatrix option"
  keysAndDependencies :: "KeysAndDependencies option"
  missingnessPatterns :: "MissingnessPatterns option"
  outliers :: "(string \<rightharpoonup> OutlierCounts) option"
  categoricalEntropy :: "(string \<rightharpoonup> EntropyStats) option"
  sampleRows :: "jsrecord list"

text \<open>
  Every option may be absent (\<open>None\<close>), false or true; the fields carry the prefix
  \<open>opt_\<close> to keep them apart from the fields of the summary.
\<close>

record ProfileOptions =
  opt_associationMatrix :: "bool option"
  opt_keysDependencies :: "bool option"
  opt_missingnessPatterns :: "bool option"
  opt_outliers :: "bool option"
  opt_categoricalEntropy :: "bool option"

text \<open>\<open>if (options.x)\<close>\<close>

definition truthy :: "bool option \<Rightarrow> bool" where
  "truthy b = (b = Some True)"

text \<open>Reading a property of \<open>undefined\<close> throws.\<close>

datatype js_error = TypeError

section \<open>Numeric and categorical statistics\<close>

definition percentile :: "jsnum list \<Rightarrow> real \<Rightarrow> jsnum" where
  "percentile srt p =
     (if length srt = 0 then NaN
      else if p \<le> 0 then srt ! 0
      else if 100 \<le> p then srt ! (length srt - 1)
      else
        (let index = (p / 100) * real (length srt - 1);
             lower = nat \<lfloor>index\<rfloor>;
             upper = lower + 1;
             weight = index - real lower
         in if length srt \<le> upper then srt ! lower
            else num_add (num_mul (srt ! lower) (Fin (1 - weight)))
                         (num_mul (srt ! upper) (Fin weight))))"

text \<open>\<open>nums.reduce((a, b) => a + b, 0)\<close>\<close>

definition sum_nums :: "jsnum list \<Rightarrow> jsnum" where
  "sum_nums nums = fold (\<lambda>b a. num_add a b) nums (Fin 0)"

text \<open>\<open>nums.reduce((a, x) => a + (x - m) ** 2, 0)\<close>\<close>

definition sum_sq_dev :: "jsnum \<Rightarrow> jsnum list \<Rightarrow> jsnum" where
  "sum_sq_dev m nums = fold (\<lambda>x a. num_add a (num_sq (num_sub x m))) nums (Fin 0)"

definition computeNumericStats :: "jsnum list \<Rightarrow> NumericStats option" where
  "computeNumericStats nums =
     (if length nums = 0 then None
      else
        (let mn = Math_min nums;
             mx = Math_max nums;
             sm = sum_nums nums;
             mean_v = num_div sm (Fin (real (length nums)));
             srt = sort_nums nums;
             median_v = percentile srt 50;
             q1 = percentile srt 25;
             q3 = percentile srt 75;
             variance =
               (if 1 < length nums
                then num_div (sum_sq_dev mean_v nums) (Fin (real (length nums - 1)))
                else Fin 0);
             stddev_v = num_sqrt variance
         in Some \<lparr>min_val = mn, max_val = mx, mean = mean_v, median = median_v,
                  quartiles = (q1, median_v, q3), stddev = stddev_v,
                  percentiles = [(10, percentile srt 10), (90, percentile srt 90)]\<rparr>))"

text \<open>\<open>cats.forEach((v) => freq.set(v, (freq.get(v) || 0) + 1))\<close>\<close>

definition count_freq :: "string list \<Rightarrow> (string \<times> nat) list" where
  "count_freq cats = fold (\<lambda>v freq. AList.update v (get_or_0 freq v + 1) freq) cats []"

text \<open>\<open>.sort((a, b) => b.count - a.count)\<close>: stable, by descending count.\<close>

definition sort_by_count_desc :: "('a \<times> nat) list \<Rightarrow> ('a \<times> nat) list" where
  "sort_by_count_desc es = sort_key (\<lambda>e. - int (snd e)) es"

definition computeCategoricalStats :: "string list \<Rightarrow> CategoricalStats option" where
  "computeCategoricalStats cats =
     (if length cats = 0 then None
      else
        (let freq = count_freq cats
         in Some \<lparr>unique = length freq,
                  top10 = take 10 (sort_by_count_desc freq),
                  hhi = fold (\<lambda>e h. h + ((real (snd e) / real (length cats)) * 100) ^ 2) freq 0\<rparr>))"

datatype coarse_type = Numeric | Categorical | Other

definition getType :: "ColumnStats \<Rightarrow> coarse_type" where
  "getType stat =
     (if numericStats stat \<noteq> None then Numeric
      else if categoricalStats stat \<noteq> None then Categorical
      else Other)"

section \<open>Pairwise association\<close>

text \<open>The rows where both cells are of type number, as pairs, in row order.\<close>

definition paired_numbers :: "jsrecord list \<Rightarrow> string \<Rightarrow> string \<Rightarrow> (jsnum \<times> jsnum) list" where
  "paired_numbers data c1 c2 =
     concat (map (\<lambda>row. case (get row c1, get row c2) of
                           (Num x, Num y) \<Rightarrow> [(x, y)]
                         | _ \<Rightarrow> []) data)"

definition pearsonFromData :: "jsrecord list \<Rightarrow> string \<Rightarrow> string \<Rightarrow> jsnum" where
  "pearsonFromData data c1 c2 =
     (let paired = paired_numbers data c1 c2
      in if length paired < 2 then NaN
         else
           (let n = Fin (real (length paired));
                n1 = Fin (real (length paired - 1));
                mx = num_div (fold (\<lambda>p a. num_add a (fst p)) paired (Fin 0)) n;
                my = num_div (fold (\<lambda>p a. num_add a (snd p)) paired (Fin 0)) n;
                acc = fold (\<lambda>p (cov, vx, vy).
                              (let dx = num_sub (fst p) mx;
                                   dy = num_sub (snd p) my
                               in (num_add cov (num_mul dx dy),
                                   num_add vx (num_sq dx),
                                   num_add vy (num_sq dy))))
                        paired (Fin 0, Fin 0, Fin 0);
                cov = num_div (fst acc) n1;
                stdx = num_sqrt (num_div (fst (snd acc)) n1);
                stdy = num_sqrt (num_div (snd (snd acc)) n1)
            in if stdx = Fin 0 \<or> stdy = Fin 0 then NaN
               else num_div cov (num_mul stdx stdy)))"

text \<open>The groups of numbers by category and the list of all grouped numbers.\<close>

definition eta_groups ::
  "(jsnum \<Rightarrow> string) \<Rightarrow> jsrecord list \<Rightarrow> string \<Rightarrow> string
     \<Rightarrow> (string \<times> jsnum list) list \<times> jsnum list" where
  "eta_groups numToString data numCol catCol =
     fold (\<lambda>row (groups, allNums).
             (case get row numCol of
                Num x \<Rightarrow>
                  if notMissing (get row catCol) then
                    (let key = toString numToString (get row catCol);
                         groups1 = (if map_of groups key = None
                                    then AList.update key [] groups else groups)
                     in (AList.update key (get_list groups1 key @ [x]) groups1,
                         allNums @ [x]))
                  else (groups, allNums)
              | _ \<Rightarrow> (groups, allNums)))
          data ([], [])"

definition etaSquaredFromData ::
  "(jsnum \<Rightarrow> string) \<Rightarrow> jsrecord list \<Rightarrow> string \<Rightarrow> string \<Rightarrow> jsnum" where
  "etaSquaredFromData numToString data numCol catCol =
     (let groups = fst (eta_groups numToString data numCol catCol);
          allNums = snd (eta_groups numToString data numCol catCol)
      in if length allNums < 2 \<or> length groups < 2 then NaN
         else
           (let grandMean = num_div (sum_nums allNums) (Fin (real (length allNums)));
                ssBetween =
                  fold (\<lambda>g s.
                          (let groupMean =
                                 num_div (sum_nums (snd g)) (Fin (real (length (snd g))))
                           in num_add s (num_mul (Fin (real (length (snd g))))
                                                 (num_sq (num_sub groupMean grandMean)))))
                       groups (Fin 0);
                ssTotal = sum_sq_dev grandMean allNums
            in if ssTotal = Fin 0 then NaN else num_div ssBetween ssTotal))"

text \<open>The contingency table of two columns and the number of rows counted.\<close>

definition contingency_of ::
  "(jsnum \<Rightarrow> string) \<Rightarrow> jsrecord list \<Rightarrow> string \<Rightarrow> string
     \<Rightarrow> (string \<times> (string \<times> nat) list) list \<times> nat" where
  "contingency_of numToString data cat1 cat2 =
     fold (\<lambda>row (contingency, n).
             if notMissing (get row cat1) \<and> notMissing (get row cat2) then
               (let k1 = toString numToString (get row cat1);
                    k2 = toString numToString (get row cat2);
                    cont1 = (if map_of contingency k1 = None
                             then AList.update k1 [] contingency else contingency);
                    inner = get_list cont1 k1
                in (AList.update k1 (AList.update k2 (get_or_0 inner k2 + 1) inner) cont1,
                    n + 1))
             else (contingency, n))
          data ([], 0)"

text \<open>
  The counts of the table are natural numbers, so the chi-square sum is computed on
  finite values throughout and is taken in the reals.
\<close>

definition cramersVFromData ::
  "(jsnum \<Rightarrow> string) \<Rightarrow> jsrecord list \<Rightarrow> string \<Rightarrow> string \<Rightarrow> jsnum" where
  "cramersVFromData numToString data cat1 cat2 =
     (let contingency = fst (contingency_of numToString data cat1 cat2);
          n = snd (contingency_of numToString data cat1 cat2)
      in if n < 2 then NaN
         else
           (let rows = map fst contingency;
                cols = fold (\<lambda>rm cs. fold (\<lambda>kc cs'. set_add (fst kc) cs') (snd rm) cs)
                         contingency [];
                rowTotals = map (\<lambda>rm. (fst rm, fold (\<lambda>kc tot. tot + snd kc) (snd rm) 0))
                              contingency;
                colTotals = map (\<lambda>c. (c, fold (\<lambda>rm tot. tot + get_or_0 (snd rm) c)
                                             contingency 0)) cols;
                chi2 = fold (\<lambda>r chi.
                         fold (\<lambda>c chi'.
                           (let ob = real (get_or_0 (get_list contingency r) c);
                                ex = (real (get_or_0 rowTotals r) * real (get_or_0 colTotals c))
                                       / real n
                            in if 0 < ex then chi' + (ob - ex) ^ 2 / ex else chi'))
                           cols chi)
                         rows (0::real);
                minDim = min (int (length rows) - 1) (int (length cols) - 1)
            in if minDim \<le> 0 then NaN
               else Fin (sqrt (chi2 / (real n * real_of_int minDim)))))"

text \<open>The statistic of a pair of columns, chosen by the coarse types of the two.\<close>

definition pair_value ::
  "(jsnum \<Rightarrow> string) \<Rightarrow> jsrecord list \<Rightarrow> string \<Rightarrow> coarse_type \<Rightarrow> string \<Rightarrow> coarse_type
     \<Rightarrow> jsnum" where
  "pair_value numToString data c1 t1 c2 t2 =
     (if t1 = Numeric \<and> t2 = Numeric then pearsonFromData data c1 c2
      else if t1 = Categorical \<and> t2 = Categorical then cramersVFromData numToString data c1 c2
      else if (t1 = Numeric \<and> t2 = Categorical) \<or> (t1 = Categorical \<and> t2 = Numeric) then
        (let numC = (if t1 = Numeric then c1 else c2);
             catC = (if t1 = Categorical then c1 else c2)
         in etaSquaredFromData numToString data numC catC)
      else NaN)"

text \<open>
  \<open>getType(columnStats[c])\<close>; the caller has checked that the entry exists.
\<close>

definition type_of_column :: "(string \<rightharpoonup> ColumnStats) \<Rightarrow> string \<Rightarrow> coarse_type" where
  "type_of_column cstats c = (case cstats c of Some st \<Rightarrow> getType st | None \<Rightarrow> Other)"

text \<open>
  \<open>assoc[c1][c2] = value\<close>; the row of every column exists from the initialisation
  \<open>columns.forEach((c) => (assoc[c] = {}))\<close>.
\<close>

definition set_cell :: "AssociationMatrix \<Rightarrow> string \<Rightarrow> string \<Rightarrow> jsnum \<Rightarrow> AssociationMatrix" where
  "set_cell assoc c1 c2 v =
     (case assoc c1 of None \<Rightarrow> assoc | Some r \<Rightarrow> assoc(c1 \<mapsto> r(c2 \<mapsto> v)))"

text \<open>The body of the outer loop at index \<open>i\<close>: the inner loop over \<open>j = i + 1, ...\<close>.\<close>

definition assoc_row ::
  "(jsnum \<Rightarrow> string) \<Rightarrow> string list \<Rightarrow> (string \<rightharpoonup> ColumnStats) \<Rightarrow> jsrecord list
     \<Rightarrow> nat \<Rightarrow> AssociationMatrix \<Rightarrow> AssociationMatrix" where
  "assoc_row numToString cols cstats data i assoc0 =
     fold (\<lambda>j assoc.
             (let c1 = cols ! i;
                  c2 = cols ! j;
                  v = pair_value numToString data c1 (type_of_column cstats c1)
                                                 c2 (type_of_column cstats c2)
              in if \<not> isNaN v then set_cell (set_cell assoc c1 c2 v) c2 c1 v else assoc))
          [i + 1 ..< length cols] assoc0"

text \<open>
  The function reads \<open>columnStats[c]\<close> of every column (at the head of each outer
  iteration), so it throws exactly when it is not capped and some column has no entry.
\<close>

definition assoc_loops ::
  "(jsnum \<Rightarrow> string) \<Rightarrow> string list \<Rightarrow> (string \<rightharpoonup> ColumnStats) \<Rightarrow> jsrecord list
     \<Rightarrow> AssociationMatrix" where
  "assoc_loops numToString cols cstats data =
     fold (assoc_row numToString cols cstats data) [0 ..< length cols]
       (fold (\<lambda>c assoc. assoc(c \<mapsto> Map.empty)) cols Map.empty)"

definition computeAssociationMatrix ::
  "(jsnum \<Rightarrow> string) \<Rightarrow> string list \<Rightarrow> (string \<rightharpoonup> ColumnStats) \<Rightarrow> jsrecord list
     \<Rightarrow> js_error + AssociationMatrix" where
  "computeAssociationMatrix numToString cols cstats data =
     (if 50 < length cols then Inr Map.empty
      else if list_ex (\<lambda>c. cstats c = None) cols then Inl TypeError
      else Inr (assoc_loops numToString cols cstats data))"

text \<open>\<open>matrix[c1][c2]\<close>, absent when the row or the cell is.\<close>

definition cell :: "AssociationMatrix \<Rightarrow> string \<Rightarrow> string \<Rightarrow> jsnum option" where
  "cell assoc c1 c2 = (case assoc c1 of None \<Rightarrow> None | Some r \<Rightarrow> r c2)"

section \<open>Keys and functional dependencies\<close>

text \<open>
  The key of a value in the grouping: \<open>JSON.stringify(v)\<close> for an object, \<open>String(v)\<close>
  otherwise (\<open>typeof v === 'object' && v !== null\<close> holds of the objects only).
\<close>

fun fd_key :: "(jsnum \<Rightarrow> string) \<Rightarrow> jsval \<Rightarrow> string" where
  "fd_key numToString (Obj r t j) = j"
| "fd_key numToString v = toString numToString v"

text \<open>\<open>data.map((row) => (col in row ? row[col] : undefined)).filter(...)\<close>\<close>

definition nonMissing_values :: "jsrecord list \<Rightarrow> string \<Rightarrow> jsval list" where
  "nonMissing_values data col =
     filter notMissing (map (\<lambda>row. if has_key row col then get row col else Undefined) data)"

text \<open>
  The map from the key of \<open>a\<close> to the set of keys of \<open>b\<close> in the rows with that key:
  \<open>fd_step\<close> is the body of the loop over the rows.
\<close>

definition fd_step ::
  "(jsnum \<Rightarrow> string) \<Rightarrow> string \<Rightarrow> string \<Rightarrow> jsrecord
     \<Rightarrow> (string \<times> string list) list \<Rightarrow> (string \<times> string list) list" where
  "fd_step numToString a b row groups =
     (if notMissing (get row a) then
        (let key = fd_key numToString (get row a);
             groups1 = (if map_of groups key = None
                        then AList.update key [] groups else groups)
         in if notMissing (get row b)
            then AList.update key
                   (set_add (fd_key numToString (get row b)) (get_list groups1 key))
                   groups1
            else groups1)
      else groups)"

definition fd_groups ::
  "(jsnum \<Rightarrow> string) \<Rightarrow> jsrecord list \<Rightarrow> string \<Rightarrow> string \<Rightarrow> (string \<times> string list) list" where
  "fd_groups numToString data a b = fold (fd_step numToString a b) data []"

definition computeKeysAndDeps ::
  "(jsnum \<Rightarrow> string) \<Rightarrow> string list \<Rightarrow> jsrecord list \<Rightarrow> nat \<Rightarrow> KeysAndDependencies" where
  "computeKeysAndDeps numToString cols data rowCount_v =
     (if 20 < length cols then \<lparr>candidatePrimaryKeys = [], functionalDependencies = []\<rparr>
      else
        (let uniqueCols =
               filter (\<lambda>col. length (nonMissing_values data col) = rowCount_v
                            \<and> set_size_values (nonMissing_values data col) = rowCount_v) cols;
             fds =
               concat (map (\<lambda>i.
                 (let a = cols ! i
                  in if length (nonMissing_values data a) < 2 then []
                     else concat (map (\<lambda>j.
                       if i = j then []
                       else if a \<in> set uniqueCols then []
                       else
                         (let b = cols ! j;
                              groups = fd_groups numToString data a b;
                              isFD = list_all (\<lambda>g. \<not> 1 < length (snd g)) groups
                          in if isFD \<and> 1 < length groups
                             then [\<lparr>from_cols = [a], to_col = b\<rparr>] else []))
                       [0 ..< length cols]))) [0 ..< length cols])
         in \<lparr>candidatePrimaryKeys = map (\<lambda>col. [col]) uniqueCols,
             functionalDependencies = fds\<rparr>))"

section \<open>Missingness\<close>

text \<open>\<open>!(c in row) || row[c] === undefined || row[c] === null\<close>\<close>

definition cell_missing :: "jsrecord \<Rightarrow> string \<Rightarrow> bool" where
  "cell_missing row c = (\<not> has_key row c \<or> get row c = Undefined \<or> get row c = Null)"

definition computeMissingPatterns ::
  "string list \<Rightarrow> jsrecord list \<Rightarrow> nat \<Rightarrow> MissingnessPatterns" where
  "computeMissingPatterns cols data rowCount_v =
     (let rates =
            fold (\<lambda>c m.
                    m(c \<mapsto> num_div
                            (Fin (real_of_int (int rowCount_v
                               - int (length (filter (\<lambda>row. \<not> cell_missing row c) data)))))
                            (Fin (real rowCount_v))))
                 cols Map.empty;
          pairCounts =
            concat (map (\<lambda>i. concat (map (\<lambda>j.
              (let c1 = cols ! i;
                   c2 = cols ! j;
                   cnt = length (filter (\<lambda>row. cell_missing row c1 \<and> cell_missing row c2) data)
               in if 0 < cnt then [((c1, c2), cnt)] else []))
              [i + 1 ..< length cols])) [0 ..< length cols])
      in \<lparr>perColumnRates = rates,
          topCoMissingPairs =
            (if length cols \<le> 50 then take 10 (sort_by_count_desc pairCounts) else [])\<rparr>)"

section \<open>Outliers and entropy\<close>

text \<open>\<open>colValues[col] as number[]\<close>: the cast checks nothing.\<close>

fun as_number :: "jsval \<Rightarrow> jsnum" where
  "as_number (Num x) = x"
| "as_number v = NaN"

text \<open>
  The z-score test of one value: \<open>stat.stddev > 0 && Math.abs((x - mean) / stddev) > 3\<close>.
  The quotient is evaluated only behind the first conjunct.
\<close>

definition zscore_outlier :: "NumericStats \<Rightarrow> jsnum \<Rightarrow> bool" where
  "zscore_outlier stat x =
     (if num_gt (stddev stat) (Fin 0)
      then num_gt (num_abs (num_div (num_sub x (mean stat)) (stddev stat))) (Fin 3)
      else False)"

definition tukey_outlier :: "NumericStats \<Rightarrow> jsnum \<Rightarrow> bool" where
  "tukey_outlier stat x =
     (let q1 = fst (quartiles stat);
          q3 = snd (snd (quartiles stat));
          iqr = num_sub q3 q1;
          lowerFence = num_sub q1 (num_mul (Fin (3 / 2)) iqr);
          upperFence = num_add q3 (num_mul (Fin (3 / 2)) iqr)
      in num_lt x lowerFence \<or> num_gt x upperFence)"

definition outlier_counts :: "NumericStats \<Rightarrow> jsnum list \<Rightarrow> OutlierCounts" where
  "outlier_counts stat nums =
     \<lparr>tukeyCount = length (filter (tukey_outlier stat) nums),
      zscoreCount = length (filter (zscore_outlier stat) nums)\<rparr>"

text \<open>
  It throws when a column has no entry in \<open>columnStats\<close>, or a numeric column has no
  list in \<open>colValues\<close>.
\<close>

definition outlier_loop ::
  "string list \<Rightarrow> (string \<rightharpoonup> ColumnStats) \<Rightarrow> (string \<rightharpoonup> jsval list)
     \<Rightarrow> (string \<rightharpoonup> OutlierCounts)" where
  "outlier_loop cols cstats colValues =
     fold (\<lambda>col out.
             (case cstats col of
                None \<Rightarrow> out
              | Some st \<Rightarrow>
                  (case numericStats st of
                     None \<Rightarrow> out
                   | Some stat \<Rightarrow>
                       (case colValues col of
                          None \<Rightarrow> out
                        | Some vs \<Rightarrow> out(col \<mapsto> outlier_counts stat (map as_number vs))))))
          cols Map.empty"

definition computeOutliers ::
  "string list \<Rightarrow> (string \<rightharpoonup> ColumnStats) \<Rightarrow> (string \<rightharpoonup> jsval list)
     \<Rightarrow> js_error + (string \<rightharpoonup> OutlierCounts)" where
  "computeOutliers cols cstats colValues =
     (if list_ex (\<lambda>col. case cstats col of
                          None \<Rightarrow> True
                        | Some st \<Rightarrow> numericStats st \<noteq> None \<and> colValues col = None) cols
      then Inl TypeError
      else Inr (outlier_loop cols cstats colValues))"

definition entropy_of :: "jsrecord list \<Rightarrow> (jsnum \<Rightarrow> string) \<Rightarrow> CategoricalStats \<Rightarrow> string \<Rightarrow> EntropyStats" where
  "entropy_of data numToString catStat col =
     (let cats = map (toString numToString) (filter notMissing (map (\<lambda>row. get row col) data));
          freq = count_freq cats;
          total = length cats;
          ent = fold (\<lambda>e h. h - (real (snd e) / real total) * log 2 (real (snd e) / real total))
                  freq 0;
          top10Values = map fst (top10 catStat);
          tailCount = fold (\<lambda>e t. if fst e \<notin> set top10Values then t + snd e else t) freq 0
      in \<lparr>entropy = ent,
          tailShareOutsideTop10 = num_div (Fin (real tailCount)) (Fin (real total))\<rparr>)"

definition entropy_loop ::
  "(jsnum \<Rightarrow> string) \<Rightarrow> string list \<Rightarrow> (string \<rightharpoonup> ColumnStats) \<Rightarrow> jsrecord list
     \<Rightarrow> (string \<rightharpoonup> EntropyStats)" where
  "entropy_loop numToString cols cstats data =
     fold (\<lambda>col ce.
             (case cstats col of
                None \<Rightarrow> ce
              | Some st \<Rightarrow>
                  (case categoricalStats st of
                     None \<Rightarrow> ce
                   | Some catStat \<Rightarrow> ce(col \<mapsto> entropy_of data numToString catStat col))))
          cols Map.empty"

definition computeCatEntropy ::
  "(jsnum \<Rightarrow> string) \<Rightarrow> string list \<Rightarrow> (string \<rightharpoonup> ColumnStats) \<Rightarrow> jsrecord list
     \<Rightarrow> js_error + (string \<rightharpoonup> EntropyStats)" where
  "computeCatEntropy numToString cols cstats data =
     (if list_ex (\<lambda>col. cstats col = None) cols then Inl TypeError
      else Inr (entropy_loop numToString cols cstats data))"

section \<open>The profile\<close>

text \<open>The body of the loop over the columns: the entry of one column.\<close>

definition column_stat :: "(jsnum \<Rightarrow> string) \<Rightarrow> jsrecord list \<Rightarrow> nat \<Rightarrow> string \<Rightarrow> ColumnStats" where
  "column_stat numToString data rowCount_v col =
     (let nonMissing = nonMissing_values data col;
          tys = new_Set (map typeof nonMissing)
      in \<lparr>present = length nonMissing,
          missing = rowCount_v - length nonMissing,
          types = tys,
          numericStats =
            (if length tys = 1 \<and> tys ! 0 = ''number'' \<and> 0 < length nonMissing
             then computeNumericStats (map as_number nonMissing) else None),
          categoricalStats =
            (if length tys = 1 \<and> (tys ! 0 = ''string'' \<or> tys ! 0 = ''boolean'')
                \<and> 0 < length nonMissing
             then computeCategoricalStats (map (toString numToString) nonMissing) else None)\<rparr>)"

text \<open>A sample row: every column, with null where the row has no value.\<close>

definition sample_row :: "string list \<Rightarrow> jsrecord \<Rightarrow> jsrecord" where
  "sample_row cols row =
     map (\<lambda>col. (col, if has_key row col \<and> get row col \<noteq> Undefined then get row col else Null))
         cols"

text \<open>An optional component: computed when the option is truthy, omitted otherwise.\<close>

definition when_option :: "bool option \<Rightarrow> js_error + 'a \<Rightarrow> js_error + 'a option" where
  "when_option b r =
     (if truthy b then (case r of Inl e \<Rightarrow> Inl e | Inr x \<Rightarrow> Inr (Some x)) else Inr None)"

text \<open>The keys of all rows in order of first appearance, and the sorted columns.\<close>

definition all_keys :: "jsrecord list \<Rightarrow> string list" where
  "all_keys data = fold (\<lambda>row ks. fold set_add (Object_keys row) ks) data []"

definition columns_of :: "jsrecord list \<Rightarrow> string list" where
  "columns_of data = sort (all_keys data)"

text \<open>The two records that the loop over the columns fills.\<close>

definition column_stats_of ::
  "(jsnum \<Rightarrow> string) \<Rightarrow> jsrecord list \<Rightarrow> string list \<Rightarrow> (string \<rightharpoonup> ColumnStats)" where
  "column_stats_of numToString data cols =
     fold (\<lambda>col m. m(col \<mapsto> column_stat numToString data (length data) col)) cols Map.empty"

definition col_values_of :: "jsrecord list \<Rightarrow> string list \<Rightarrow> (string \<rightharpoonup> jsval list)" where
  "col_values_of data cols = fold (\<lambda>col m. m(col \<mapsto> nonMissing_values data col)) cols Map.empty"

definition profile ::
  "(jsnum \<Rightarrow> string) \<Rightarrow> jsrecord list \<Rightarrow> ProfileOptions \<Rightarrow> js_error + ProfileSummary" where
  "profile numToString data options =
     (if length data = 0
      then Inr \<lparr>rowCount = 0, columns = [], columnStats = Map.empty,
                associationMatrix = None, keysAndDependencies = None,
                missingnessPatterns = None, outliers = None, categoricalEntropy = None,
                sampleRows = []\<rparr>
      else
        (let cols = columns_of data;
             sampleSize = min 5 (length data);
             samples = map (sample_row cols) (take sampleSize data);
             cstats = column_stats_of numToString data cols;
             colValues = col_values_of data cols
         in
           (case when_option (opt_associationMatrix options)
                   (computeAssociationMatrix numToString cols cstats data) of
              Inl e \<Rightarrow> Inl e
            | Inr am \<Rightarrow>
           (case when_option (opt_outliers options) (computeOutliers cols cstats colValues) of
              Inl e \<Rightarrow> Inl e
            | Inr ol \<Rightarrow>
           (case when_option (opt_categoricalEntropy options)
                   (computeCatEntropy numToString cols cstats data) of
              Inl e \<Rightarrow> Inl e
            | Inr ce \<Rightarrow>
                Inr \<lparr>rowCount = length data, columns = cols, columnStats = cstats,
                     associationMatrix = am,
                     keysAndDependencies =
                       (if truthy (opt_keysDependencies options)
                        then Some (computeKeysAndDeps numToString cols data (length data))
                        else None),
                     missingnessPatterns =
                       (if truthy (opt_missingnessPatterns options)
                        then Some (computeMissingPatterns cols data (length data))
                        else None),
                     outliers = ol, categoricalEntropy = ce,
                     sampleRows = samples\<rparr>)))))"

section \<open>A printer of numbers for the examples\<close>

text \<open>
  The theorems hold for every printer of numbers. The examples take this one: the
  special values and the integers print as in JavaScript, and no example prints any
  other number (it would print as its integer part).
\<close>

fun digits_of :: "nat \<Rightarrow> string" where
  "digits_of n =
     (if n < 10 then [''0123456789'' ! n]
      else digits_of (n div 10) @ [''0123456789'' ! (n mod 10)])"

fun print_num :: "jsnum \<Rightarrow> string" where
  "print_num NaN = ''NaN''"
| "print_num PosInf = ''Infinity''"
| "print_num NegInf = ''-Infinity''"
| "print_num (Fin a) =
     (if a < 0 then ''-'' @ digits_of (nat \<lfloor>- a\<rfloor>) else digits_of (nat \<lfloor>a\<rfloor>))"

text \<open>Every option enabled, and no option given.\<close>

definition all_options :: ProfileOptions where
  "all_options =
     \<lparr>opt_associationMatrix = Some True, opt_keysDependencies = Some True,
      opt_missingnessPatterns = Some True, opt_outliers = Some True,
      opt_categoricalEntropy = Some True\<rparr>"

definition no_options :: ProfileOptions where
  "no_options =
     \<lparr>opt_associationMatrix = None, opt_keysDependencies = None,
      opt_missingnessPatterns = None, opt_outliers = None, opt_categoricalEntropy = None\<rparr>"

text \<open>
  The summary of a table with at least one row, once the three components that may
  throw have returned.
\<close>

definition profile_value :: "(jsnum \<Rightarrow> string) \<Rightarrow> jsrecord list \<Rightarrow> ProfileOptions \<Rightarrow> ProfileSummary" where
  "profile_value ns data options =
     (let cols = columns_of data; cstats = column_stats_of ns data cols in
      \<lparr>rowCount = length data, columns = cols, columnStats = cstats,
       associationMatrix =
         (if truthy (opt_associationMatrix options)
          then Some (if 50 < length cols then Map.empty else assoc_loops ns cols cstats data)
          else None),
       keysAndDependencies =
         (if truthy (opt_keysDependencies options)
          then Some (computeKeysAndDeps ns cols data (length data)) else None),
       missingnessPatterns =
         (if truthy (opt_missingnessPatterns options)
          then Some (computeMissingPatterns cols data (length data)) else None),
       outliers =
         (if truthy (opt_outliers options)
          then Some (outlier_loop cols cstats (col_values_of data cols)) else None),
       categoricalEntropy =
         (if truthy (opt_categoricalEntropy options)
          then Some (entropy_loop ns cols cstats data) else None),
       sampleRows = map (sample_row cols) (take (min 5 (length data)) data)\<rparr>)"

text \<open>A table of one row with \<open>n\<close> columns, named by single characters from \<open>A\<close> on.\<close>

definition wide_table :: "nat \<Rightarrow> jsrecord list" where
  "wide_table n = [map (\<lambda>k. ([char_of k], Num (Fin 1))) [65 ..< 65 + n]]"


text \<open>The table of the test of special values: three finite numbers, then \<open>NaN\<close> and the two infinities.\<close>

definition nonfinite_table :: "jsrecord list" where
  "nonfinite_table =
     [[(''value'', Num (Fin 1))], [(''value'', Num (Fin 2))], [(''value'', Num (Fin 3))],
      [(''value'', Num NaN)], [(''value'', Num PosInf)], [(''value'', Num NegInf)]]"


text \<open>The statistic of a pair of columns, with the coarse types read from the column statistics.\<close>

definition pair_stat ::
  "(jsnum \<Rightarrow> string) \<Rightarrow> jsrecord list \<Rightarrow> (string \<rightharpoonup> ColumnStats) \<Rightarrow> string \<Rightarrow> string \<Rightarrow> jsnum" where
  "pair_stat ns data cstats c1 c2 =
     pair_value ns data c1 (type_of_column cstats c1) c2 (type_of_column cstats c2)"

text \<open>
  The cells of the matrix after the pairs of column indices in \<open>S\<close> have been visited:
  every column has its row, and a cell holds a value exactly when a visited pair names
  it, in either order, and the statistic of the pair is not \<open>NaN\<close>.
\<close>

definition assoc_inv ::
  "(string \<Rightarrow> string \<Rightarrow> jsnum) \<Rightarrow> string list \<Rightarrow> (nat \<times> nat) set \<Rightarrow> AssociationMatrix \<Rightarrow> bool" where
  "assoc_inv f cols S M =
     (dom M = set cols
      \<and> (\<forall>x y v. (cell M x y = Some v) =
            (\<exists>i j. (i, j) \<in> S \<and> ((x = cols ! i \<and> y = cols ! j) \<or> (x = cols ! j \<and> y = cols ! i))
                   \<and> v = f (cols ! i) (cols ! j) \<and> \<not> isNaN v)))"

text \<open>One iteration of the inner loop, for the statistic \<open>f\<close>.\<close>

definition assoc_step ::
  "(string \<Rightarrow> string \<Rightarrow> jsnum) \<Rightarrow> string list \<Rightarrow> nat \<Rightarrow> nat \<Rightarrow> AssociationMatrix \<Rightarrow> AssociationMatrix" where
  "assoc_step f cols i j M =
     (if \<not> isNaN (f (cols ! i) (cols ! j))
      then set_cell (set_cell M (cols ! i) (cols ! j) (f (cols ! i) (cols ! j)))
             (cols ! j) (cols ! i) (f (cols ! i) (cols ! j))
      else M)"

text \<open>The pairs visited when the outer loop is at \<open>i\<close> and the inner loop at \<open>k\<close>.\<close>

definition pairs_done :: "nat \<Rightarrow> nat \<Rightarrow> nat \<Rightarrow> (nat \<times> nat) set" where
  "pairs_done n i k = {(a, b). (a < i \<and> a < b \<and> b < n) \<or> (a = i \<and> i < b \<and> b < k)}"


text \<open>Two numeric columns, linearly related on the first three rows, with an infinity in the last.\<close>

definition infinity_table :: "jsrecord list" where
  "infinity_table =
     [[(''a'', Num (Fin 1)), (''b'', Num (Fin 2))],
      [(''a'', Num (Fin 2)), (''b'', Num (Fin 4))],
      [(''a'', Num (Fin 3)), (''b'', Num (Fin 6))],
      [(''a'', Num PosInf), (''b'', Num (Fin 8))]]"










section \<open>The profile returns\<close>

lemma fold_upd_apply:
  "fold (\<lambda>c m. m(c \<mapsto> f c)) cs m0 x = (if x \<in> set cs then Some (f x) else m0 x)"
  by (induction cs arbitrary: m0) auto

lemma column_stats_of_apply:
  "column_stats_of ns data cols c =
     (if c \<in> set cols then Some (column_stat ns data (length data) c) else None)"
  by (simp add: column_stats_of_def fold_upd_apply)

lemma col_values_of_apply:
  "col_values_of data cols c = (if c \<in> set cols then Some (nonMissing_values data c) else None)"
  by (simp add: col_values_of_def fold_upd_apply)

lemma computeAssociationMatrix_total:
  "computeAssociationMatrix ns cols (column_stats_of ns data cols) data =
     Inr (if 50 < length cols then Map.empty
          else assoc_loops ns cols (column_stats_of ns data cols) data)"
  by (simp add: computeAssociationMatrix_def list_ex_iff column_stats_of_apply)

lemma computeOutliers_total:
  "computeOutliers cols (column_stats_of ns data cols) (col_values_of data cols) =
     Inr (outlier_loop cols (column_stats_of ns data cols) (col_values_of data cols))"
  by (simp add: computeOutliers_def list_ex_iff column_stats_of_apply col_values_of_apply)

lemma computeCatEntropy_total:
  "computeCatEntropy ns cols (column_stats_of ns data cols) data =
     Inr (entropy_loop ns cols (column_stats_of ns data cols) data)"
  by (simp add: computeCatEntropy_def list_ex_iff column_stats_of_apply)

lemma profile_nonempty:
  "data \<noteq> [] \<Longrightarrow> profile ns data options = Inr (profile_value ns data options)"
  by (simp add: profile_def profile_value_def Let_def when_option_def
      computeAssociationMatrix_total computeOutliers_total computeCatEntropy_total)

lemma profile_Nil:
  "profile ns [] options =
     Inr \<lparr>rowCount = 0, columns = [], columnStats = Map.empty,
          associationMatrix = None, keysAndDependencies = None,
          missingnessPatterns = None, outliers = None, categoricalEntropy = None,
          sampleRows = []\<rparr>"
  by (simp add: profile_def)

lemma columns_profile_value: "columns (profile_value ns data options) = columns_of data"
  by (simp add: profile_value_def Let_def)

lemma rowCount_profile_value: "rowCount (profile_value ns data options) = length data"
  by (simp add: profile_value_def Let_def)

section \<open>Row count and columns\<close>

lemma set_fold_set_add: "set (fold set_add xs s) = set xs \<union> set s"
  by (induction xs arbitrary: s) (auto simp: set_add_def)

lemma distinct_fold_set_add: "distinct s \<Longrightarrow> distinct (fold set_add xs s)"
  by (induction xs arbitrary: s) (auto simp: set_add_def)

lemma set_all_keys_aux:
  "set (fold (\<lambda>row ks. fold set_add (Object_keys row) ks) data s)
     = set (concat (map Object_keys data)) \<union> set s"
  by (induction data arbitrary: s) (auto simp: set_fold_set_add)

lemma distinct_all_keys_aux:
  "distinct s \<Longrightarrow> distinct (fold (\<lambda>row ks. fold set_add (Object_keys row) ks) data s)"
  by (induction data arbitrary: s) (auto simp: distinct_fold_set_add)

lemma set_all_keys: "set (all_keys data) = set (concat (map Object_keys data))"
  by (simp add: all_keys_def set_all_keys_aux)

lemma distinct_all_keys: "distinct (all_keys data)"
  by (simp add: all_keys_def distinct_all_keys_aux)

lemma distinct_columns_of: "distinct (columns_of data)"
  by (simp add: columns_of_def distinct_all_keys)

lemma sorted_columns_of: "sorted (columns_of data)"
  by (simp add: columns_of_def)

lemma set_columns_of: "set (columns_of data) = set (concat (map Object_keys data))"
  by (simp add: columns_of_def set_all_keys)

lemma columns_of_sort_remdups:
  "columns_of data = sort (remdups (concat (map Object_keys data)))"
proof (rule sorted_distinct_set_unique)
  show "set (columns_of data) = set (sort (remdups (concat (map Object_keys data))))"
    by (simp add: set_columns_of)
qed (simp_all add: distinct_columns_of sorted_columns_of)

text \<open>
  Claim C3. For every input table, the returned \<open>rowCount\<close> is the number of input
  records, and the returned \<open>columns\<close> list is the sorted deduplication of all keys that
  appear in any record: sorted in the lexicographic order of the strings, without
  duplicates, whatever the order of first appearance.
\<close>

theorem profile_rowCount_columns:
  "\<exists>r. profile ns data options = Inr r
       \<and> rowCount r = length data
       \<and> columns r = sort (remdups (concat (map Object_keys data)))
       \<and> sorted (columns r) \<and> distinct (columns r)"
proof (cases "data = []")
  case True
  then show ?thesis by (simp add: profile_Nil)
next
  case False
  then show ?thesis
    using profile_nonempty [of data ns options] columns_of_sort_remdups [of data]
      distinct_columns_of [of data] sorted_columns_of [of data]
    by (simp add: columns_profile_value rowCount_profile_value)
qed

theorem profile_rowCount_columns_witness:
  "\<exists>r. profile print_num
          [[(''z'', Num (Fin 1)), (''a'', Num (Fin 2)), (''m'', Num (Fin 3))],
           [(''a'', Num (Fin 4)), (''z'', Num (Fin 5)), (''m'', Num (Fin 6))]] no_options = Inr r
       \<and> rowCount r = 2 \<and> columns r = [''a'', ''m'', ''z'']"
  using profile_rowCount_columns [of print_num
          "[[(''z'', Num (Fin 1)), (''a'', Num (Fin 2)), (''m'', Num (Fin 3))],
           [(''a'', Num (Fin 4)), (''z'', Num (Fin 5)), (''m'', Num (Fin 6))]]" no_options]
  by (auto simp add: Object_keys_def)

section \<open>The empty table\<close>

text \<open>
  Claim C10. For the empty input table and every value of the options, \<open>profile\<close>
  returns row count 0, no columns, an empty \<open>columnStats\<close> record and no sample rows,
  and it omits every optional field (association matrix, keys and dependencies,
  missingness patterns, outliers, categorical entropy), also when the option is true.
\<close>

theorem profile_empty_table:
  "profile ns [] options =
     Inr \<lparr>rowCount = 0, columns = [], columnStats = Map.empty,
          associationMatrix = None, keysAndDependencies = None,
          missingnessPatterns = None, outliers = None, categoricalEntropy = None,
          sampleRows = []\<rparr>"
  by (simp add: profile_def)

theorem profile_empty_table_witness:
  "\<exists>r. profile print_num [] all_options = Inr r
       \<and> rowCount r = 0 \<and> columns r = [] \<and> columnStats r = Map.empty \<and> sampleRows r = []
       \<and> associationMatrix r = None \<and> keysAndDependencies r = None
       \<and> missingnessPatterns r = None \<and> outliers r = None \<and> categoricalEntropy r = None"
  using profile_empty_table [of print_num all_options] by simp

section \<open>Sample rows\<close>






section \<open>Performance caps\<close>

lemma performance_caps_general:
  assumes "data \<noteq> []"
  shows "50 < length (columns_of data) \<Longrightarrow> truthy (opt_associationMatrix options) \<Longrightarrow>
           associationMatrix (profile_value ns data options) = Some Map.empty"
    and "20 < length (columns_of data) \<Longrightarrow> truthy (opt_keysDependencies options) \<Longrightarrow>
           keysAndDependencies (profile_value ns data options)
             = Some \<lparr>candidatePrimaryKeys = [], functionalDependencies = []\<rparr>"
    and "50 < length (columns_of data) \<Longrightarrow> truthy (opt_missingnessPatterns options) \<Longrightarrow>
           \<exists>mp. missingnessPatterns (profile_value ns data options) = Some mp
                \<and> topCoMissingPairs mp = []"
  by (simp_all add: profile_value_def Let_def computeKeysAndDeps_def computeMissingPatterns_def)

text \<open>
  Claim C7. With the corresponding option enabled: a table with 60 columns yields an
  empty association matrix and empty lists of candidate keys and of functional
  dependencies, whatever the data, and a table with 51 columns yields an empty list of
  co-missing pairs. In each capped case the field of the output is present and holds
  the empty structure.
\<close>

theorem performance_caps:
  "\<exists>r. profile ns data options = Inr r
       \<and> (length (columns r) = 60 \<longrightarrow>
            (truthy (opt_associationMatrix options) \<longrightarrow> associationMatrix r = Some Map.empty)
            \<and> (truthy (opt_keysDependencies options) \<longrightarrow>
                 keysAndDependencies r
                   = Some \<lparr>candidatePrimaryKeys = [], functionalDependencies = []\<rparr>))
       \<and> (length (columns r) = 51 \<longrightarrow> truthy (opt_missingnessPatterns options) \<longrightarrow>
            (\<exists>mp. missingnessPatterns r = Some mp \<and> topCoMissingPairs mp = []))"
proof (cases "data = []")
  case True
  then show ?thesis by (simp add: profile_Nil)
next
  case False
  show ?thesis
    using False profile_nonempty [of data ns options]
      performance_caps_general [OF False, of options ns]
    by (simp add: columns_profile_value)
qed

lemma distinct_wide_keys: "n \<le> 190 \<Longrightarrow> distinct (map (\<lambda>k. [char_of k]) [65 ..< 65 + n])"
  by (auto simp: distinct_map inj_on_def char_of_eq_iff take_bit_nat_eq_self)

lemma length_columns_wide_table:
  assumes "n \<le> 190"
  shows "length (columns_of (wide_table n)) = n"
proof -
  have "length (columns_of (wide_table n)) = card (set (columns_of (wide_table n)))"
    by (simp add: distinct_card distinct_columns_of)
  also have "\<dots> = card (set (map (\<lambda>k. [char_of k]) [65 ..< 65 + n]))"
    by (simp add: set_columns_of wide_table_def Object_keys_def comp_def)
  also have "\<dots> = n"
    using distinct_card [OF distinct_wide_keys [OF assms]] by simp
  finally show ?thesis .
qed

theorem performance_caps_witness:
  "(\<exists>r. profile print_num (wide_table 60) all_options = Inr r
        \<and> length (columns r) = 60
        \<and> associationMatrix r = Some Map.empty
        \<and> keysAndDependencies r = Some \<lparr>candidatePrimaryKeys = [], functionalDependencies = []\<rparr>)
   \<and> (\<exists>r. profile print_num (wide_table 51) all_options = Inr r
        \<and> length (columns r) = 51
        \<and> (\<exists>mp. missingnessPatterns r = Some mp \<and> topCoMissingPairs mp = []))"
proof -
  have n: "wide_table 60 \<noteq> []" "wide_table 51 \<noteq> []"
    by (simp_all add: wide_table_def)
  have t: "truthy (opt_associationMatrix all_options)" "truthy (opt_keysDependencies all_options)"
    "truthy (opt_missingnessPatterns all_options)"
    by (simp_all add: all_options_def truthy_def)
  show ?thesis
    using performance_caps [of print_num "wide_table 60" all_options]
      performance_caps [of print_num "wide_table 51" all_options]
    by (simp add: profile_nonempty [OF n(1)] profile_nonempty [OF n(2)] columns_profile_value t
        length_columns_wide_table)
qed

section \<open>Column statistics\<close>

lemma singleton_index: "(length xs = Suc 0 \<and> xs ! 0 = a) = (xs = [a])"
  by (cases xs) auto



lemma computeNumericStats_Some: "(\<exists>y. computeNumericStats nums = Some y) = (nums \<noteq> [])"
  by (simp add: computeNumericStats_def Let_def)


lemma column_stat_present: "present (column_stat ns data n col) = length (nonMissing_values data col)"
  by (simp add: column_stat_def Let_def)

lemma column_stat_missing: "missing (column_stat ns data n col) = n - length (nonMissing_values data col)"
  by (simp add: column_stat_def Let_def)

lemma column_stat_types:
  "types (column_stat ns data n col) = new_Set (map typeof (nonMissing_values data col))"
  by (simp add: column_stat_def Let_def)

lemma types_singleton_nonempty:
  "new_Set (map typeof vs) = [k] \<Longrightarrow> vs \<noteq> []"
  by (auto simp: new_Set_def)

lemma column_stat_numeric:
  "numericStats (column_stat ns data n col) =
     (if types (column_stat ns data n col) = [''number'']
      then computeNumericStats (map as_number (nonMissing_values data col)) else None)"
proof -
  let ?tys = "new_Set (map typeof (nonMissing_values data col))"
  have "(length ?tys = 1 \<and> ?tys ! 0 = ''number'' \<and> 0 < length (nonMissing_values data col))
          = (?tys = [''number''])"
    using singleton_index [of ?tys "''number''"] types_singleton_nonempty [of "nonMissing_values data col" "''number''"]
    by auto
  then show ?thesis
    by (simp add: column_stat_def Let_def)
qed


lemma column_stat_numeric_iff:
  "(numericStats (column_stat ns data n col) \<noteq> None) =
     (types (column_stat ns data n col) = [''number''])"
  using types_singleton_nonempty [of "nonMissing_values data col" "''number''"]
  by (auto simp add: column_stat_numeric computeNumericStats_Some column_stat_types)









lemma columnStats_profile_value:
  "columnStats (profile_value ns data options) col =
     (if col \<in> set (columns_of data) then Some (column_stat ns data (length data) col) else None)"
  by (simp add: profile_value_def Let_def column_stats_of_apply)








section \<open>Non-finite numbers\<close>

lemma computeNumericStats_fields:
  "nums \<noteq> [] \<Longrightarrow>
     \<exists>st. computeNumericStats nums = Some st
        \<and> mean st = num_div (sum_nums nums) (Fin (real (length nums)))
        \<and> min_val st = Math_min nums \<and> max_val st = Math_max nums"
  by (simp add: computeNumericStats_def Let_def)

text \<open>
  Claim C1 says that the non-finite numbers (\<open>NaN\<close>, \<open>Infinity\<close>, \<open>-Infinity\<close>) are
  excluded when a column is classified: not counted as present, no kind \<open>number\<close> from
  them, and never in the list the numeric statistics are computed from. The code
  tests \<open>typeof v\<close> only, so it keeps them: on the table of the repository's test of
  special values it counts 6 present values and none missing (the test expects 3),
  and the numeric statistics are computed from all six, with mean, minimum and maximum
  \<open>NaN\<close>.
\<close>

theorem nonfinite_values_counted_present:
  "\<exists>r st stat. profile print_num nonfinite_table no_options = Inr r
     \<and> rowCount r = 6
     \<and> columnStats r ''value'' = Some st
     \<and> present st = 6 \<and> missing st = 0 \<and> types st = [''number'']
     \<and> numericStats st = Some stat
     \<and> mean stat = NaN \<and> min_val stat = NaN \<and> max_val stat = NaN"
proof -
  let ?r = "profile_value print_num nonfinite_table no_options"
  let ?st = "column_stat print_num nonfinite_table 6 ''value''"
  let ?nums = "[Fin 1, Fin 2, Fin 3, NaN, PosInf, NegInf]"
  have p: "profile print_num nonfinite_table no_options = Inr ?r"
    by (rule profile_nonempty) (simp add: nonfinite_table_def)
  have len: "length nonfinite_table = 6"
    by (simp add: nonfinite_table_def)
  have cols: "columns_of nonfinite_table = [''value'']"
    by (simp add: columns_of_def all_keys_def nonfinite_table_def Object_keys_def set_add_def)
  have vs: "nonMissing_values nonfinite_table ''value''
              = [Num (Fin 1), Num (Fin 2), Num (Fin 3), Num NaN, Num PosInf, Num NegInf]"
    by (simp add: nonMissing_values_def nonfinite_table_def has_key_def get_def notMissing_def)
  have st: "columnStats ?r ''value'' = Some ?st"
    by (simp add: columnStats_profile_value cols len)
  have ty: "types ?st = [''number'']"
    by (simp add: column_stat_types vs new_Set_def set_add_def)
  have pm: "present ?st = 6" "missing ?st = 0"
    by (simp_all add: column_stat_present column_stat_missing vs)
  have ns: "numericStats ?st = computeNumericStats ?nums"
    by (simp add: column_stat_numeric ty) (simp add: vs)
  obtain stat where stat: "computeNumericStats ?nums = Some stat"
    and m: "mean stat = num_div (sum_nums ?nums) (Fin (real (length ?nums)))"
    and mn: "min_val stat = Math_min ?nums" and mx: "max_val stat = Math_max ?nums"
    using computeNumericStats_fields [of ?nums] by auto
  have vals: "mean stat = NaN" "min_val stat = NaN" "max_val stat = NaN"
    by (simp_all add: m mn mx sum_nums_def Math_min_def Math_max_def min2_def max2_def)
  show ?thesis
    by (intro exI [of _ ?r] exI [of _ ?st] exI [of _ stat] conjI p st ty pm vals)
      (simp_all add: rowCount_profile_value len ns stat)
qed

section \<open>Outliers of a constant column\<close>































section \<open>The association matrix\<close>

lemma cell_set_cell:
  "c1 \<in> dom M \<Longrightarrow>
     cell (set_cell M c1 c2 v) x y = (if x = c1 \<and> y = c2 then Some v else cell M x y)"
  by (auto simp: cell_def set_cell_def split: option.splits)

lemma dom_set_cell: "dom (set_cell M c1 c2 v) = dom M"
  by (auto simp: set_cell_def split: option.splits)

lemma ex_insert_pair:
  "(\<exists>a b. (a, b) \<in> insert (i, j) S \<and> P a b) = (P i j \<or> (\<exists>a b. (a, b) \<in> S \<and> P a b))"
  by auto

lemma assoc_step_inv:
  assumes inv: "assoc_inv f cols S M"
    and d: "distinct cols"
    and ij: "i < j" "j < length cols"
    and S: "\<forall>(a, b)\<in>S. a < b \<and> b < length cols"
    and new: "(i, j) \<notin> S"
  shows "assoc_inv f cols (insert (i, j) S) (assoc_step f cols i j M)"
proof -
  let ?v = "f (cols ! i) (cols ! j)"
  have i: "i < length cols"
    using ij by simp
  have dom: "dom M = set cols"
    using inv by (simp add: assoc_inv_def)
  have cells: "\<And>x y v. (cell M x y = Some v) =
            (\<exists>a b. (a, b) \<in> S \<and> ((x = cols ! a \<and> y = cols ! b) \<or> (x = cols ! b \<and> y = cols ! a))
                   \<and> v = f (cols ! a) (cols ! b) \<and> \<not> isNaN v)"
    using inv by (simp add: assoc_inv_def)
  have ne: "cols ! i \<noteq> cols ! j"
    using d ij i by (simp add: nth_eq_iff_index_eq)
  have fresh: "cell M (cols ! i) (cols ! j) = None" "cell M (cols ! j) (cols ! i) = None"
  proof -
    have "\<not> (\<exists>a b. (a, b) \<in> S \<and> ((cols ! i = cols ! a \<and> cols ! j = cols ! b)
                 \<or> (cols ! i = cols ! b \<and> cols ! j = cols ! a)))"
    proof
      assume "\<exists>a b. (a, b) \<in> S \<and> ((cols ! i = cols ! a \<and> cols ! j = cols ! b)
                 \<or> (cols ! i = cols ! b \<and> cols ! j = cols ! a))"
      then obtain a b where ab: "(a, b) \<in> S"
        and e: "(cols ! i = cols ! a \<and> cols ! j = cols ! b)
                 \<or> (cols ! i = cols ! b \<and> cols ! j = cols ! a)"
        by blast
      have lt: "a < b" "b < length cols"
        using S ab by auto
      then have "a < length cols"
        by simp
      with e lt i ij d have "(i = a \<and> j = b) \<or> (i = b \<and> j = a)"
        by (simp add: nth_eq_iff_index_eq)
      then show False
        using ab new lt ij by auto
    qed
    then have "\<And>v. cell M (cols ! i) (cols ! j) \<noteq> Some v" "\<And>v. cell M (cols ! j) (cols ! i) \<noteq> Some v"
      unfolding cells by blast+
    then show "cell M (cols ! i) (cols ! j) = None" "cell M (cols ! j) (cols ! i) = None"
      by (metis option.exhaust)+
  qed
  show ?thesis
  proof (cases "isNaN ?v")
    case True
    then have "assoc_step f cols i j M = M"
      by (simp add: assoc_step_def)
    moreover have "assoc_inv f cols (insert (i, j) S) M"
      unfolding assoc_inv_def using dom cells True by auto
    ultimately show ?thesis by simp
  next
    case False
    let ?M1 = "set_cell M (cols ! i) (cols ! j) ?v"
    let ?M2 = "set_cell ?M1 (cols ! j) (cols ! i) ?v"
    have M2: "assoc_step f cols i j M = ?M2"
      using False by (simp add: assoc_step_def)
    have d1: "cols ! i \<in> dom M" and d2: "cols ! j \<in> dom ?M1"
      using dom i ij by (simp_all add: dom_set_cell)
    have c2: "cell ?M2 x y =
        (if x = cols ! j \<and> y = cols ! i then Some ?v
         else if x = cols ! i \<and> y = cols ! j then Some ?v else cell M x y)" for x y
      by (simp add: cell_set_cell [OF d2] cell_set_cell [OF d1])
    have "(cell ?M2 x y = Some v) =
            (\<exists>a b. (a, b) \<in> insert (i, j) S
                   \<and> ((x = cols ! a \<and> y = cols ! b) \<or> (x = cols ! b \<and> y = cols ! a))
                   \<and> v = f (cols ! a) (cols ! b) \<and> \<not> isNaN v)"
      (is "?L = (\<exists>a b. (a, b) \<in> insert (i, j) S \<and> ?P a b)") for x y v
    proof (cases "(x = cols ! i \<and> y = cols ! j) \<or> (x = cols ! j \<and> y = cols ! i)")
      case True
      have "cell ?M2 x y = Some ?v"
        using True by (elim disjE conjE) (simp_all only: c2 if_True simp_thms split: if_split)
      then have l: "?L = (v = ?v)"
        by auto
      have old: "\<not> (\<exists>a b. (a, b) \<in> S \<and> ?P a b)"
      proof -
        have "cell M x y = None"
          using True fresh by (elim disjE conjE) simp_all
        then have "cell M x y \<noteq> Some v"
          by simp
        then show ?thesis
          by (simp only: cells not_False_eq_True)
      qed
      have "(\<exists>a b. (a, b) \<in> insert (i, j) S \<and> ?P a b) = (?P i j \<or> (\<exists>a b. (a, b) \<in> S \<and> ?P a b))"
        by (rule ex_insert_pair)
      also have "\<dots> = ?P i j"
        by (simp only: old simp_thms)
      also have "\<dots> = (v = ?v \<and> \<not> isNaN v)"
        by (simp only: True simp_thms)
      also have "\<dots> = (v = ?v)"
        using False by (cases "v = ?v") simp_all
      finally show ?thesis
        by (simp only: l)
    next
      case nm: False
      have n1: "\<not> (x = cols ! j \<and> y = cols ! i)" and n2: "\<not> (x = cols ! i \<and> y = cols ! j)"
        using nm by blast+
      have "cell ?M2 x y = cell M x y"
        by (simp only: c2 n1 n2 if_False)
      then have "?L = (cell M x y = Some v)"
        by simp
      also have "\<dots> = (\<exists>a b. (a, b) \<in> S \<and> ?P a b)"
        by (rule cells)
      also have "\<dots> = (?P i j \<or> (\<exists>a b. (a, b) \<in> S \<and> ?P a b))"
        by (simp only: nm simp_thms)
      also have "\<dots> = (\<exists>a b. (a, b) \<in> insert (i, j) S \<and> ?P a b)"
        by (rule ex_insert_pair [symmetric])
      finally show ?thesis .
    qed
    then show ?thesis
      unfolding M2 assoc_inv_def using dom by (simp add: dom_set_cell)
  qed
qed


lemma assoc_row_step:
  "assoc_row ns cols cstats data i M
     = fold (assoc_step (pair_stat ns data cstats) cols i) [i + 1 ..< length cols] M"
proof -
  have "(\<lambda>j assoc.
             (let c1 = cols ! i;
                  c2 = cols ! j;
                  v = pair_value ns data c1 (type_of_column cstats c1)
                                                 c2 (type_of_column cstats c2)
              in if \<not> isNaN v then set_cell (set_cell assoc c1 c2 v) c2 c1 v else assoc))
        = assoc_step (pair_stat ns data cstats) cols i"
    by (intro ext) (simp add: assoc_step_def pair_stat_def Let_def)
  then show ?thesis
    by (simp only: assoc_row_def)
qed

lemma pairs_done_insert:
  "i < k \<Longrightarrow> insert (i, k) (pairs_done n i k) = pairs_done n i (Suc k)"
  by (auto simp: pairs_done_def)

lemma pairs_done_next: "pairs_done n i n = pairs_done n (Suc i) (Suc (Suc i))"
  by (auto simp: pairs_done_def)

lemma assoc_inner_inv:
  assumes d: "distinct cols"
    and inv: "assoc_inv f cols (pairs_done (length cols) i (Suc i)) M"
  shows "i + 1 + m \<le> length cols \<Longrightarrow>
           assoc_inv f cols (pairs_done (length cols) i (i + 1 + m))
             (fold (assoc_step f cols i) [i + 1 ..< i + 1 + m] M)"
proof (induction m)
  case 0
  then show ?case using inv by simp
next
  case (Suc m)
  let ?k = "i + 1 + m"
  let ?M = "fold (assoc_step f cols i) [i + 1 ..< ?k] M"
  have IH: "assoc_inv f cols (pairs_done (length cols) i ?k) ?M"
    using Suc by simp
  have k: "i < ?k" "?k < length cols"
    using Suc.prems by simp_all
  have S: "\<forall>(a, b)\<in>pairs_done (length cols) i ?k. a < b \<and> b < length cols"
    using k by (auto simp: pairs_done_def)
  have new: "(i, ?k) \<notin> pairs_done (length cols) i ?k"
    by (simp add: pairs_done_def)
  have "assoc_inv f cols (insert (i, ?k) (pairs_done (length cols) i ?k))
          (assoc_step f cols i ?k ?M)"
    by (rule assoc_step_inv [OF IH d k S new])
  then have "assoc_inv f cols (pairs_done (length cols) i (Suc ?k)) (assoc_step f cols i ?k ?M)"
    by (simp only: pairs_done_insert [OF k(1)])
  moreover have "[i + 1 ..< i + 1 + Suc m] = [i + 1 ..< ?k] @ [?k]"
    by simp
  ultimately show ?case
    by (simp only: fold_append fold_simps comp_apply id_apply) simp
qed

lemma assoc_row_inv:
  assumes d: "distinct cols" and i: "i < length cols"
    and inv: "assoc_inv (pair_stat ns data cstats) cols (pairs_done (length cols) i (Suc i)) M"
  shows "assoc_inv (pair_stat ns data cstats) cols (pairs_done (length cols) (Suc i) (Suc (Suc i)))
           (assoc_row ns cols cstats data i M)"
proof -
  have eq: "i + 1 + (length cols - (i + 1)) = length cols"
    using i by simp
  have "assoc_inv (pair_stat ns data cstats) cols (pairs_done (length cols) i (length cols))
          (fold (assoc_step (pair_stat ns data cstats) cols i) [i + 1 ..< length cols] M)"
    using assoc_inner_inv [OF d inv, of "length cols - (i + 1)", unfolded eq] by simp
  then show ?thesis
    by (simp only: assoc_row_step pairs_done_next)
qed

lemma assoc_outer_inv:
  assumes d: "distinct cols"
    and inv: "assoc_inv (pair_stat ns data cstats) cols {} M"
  shows "m \<le> length cols \<Longrightarrow>
           assoc_inv (pair_stat ns data cstats) cols (pairs_done (length cols) m (Suc m))
             (fold (assoc_row ns cols cstats data) [0 ..< m] M)"
proof (induction m)
  case 0
  have "pairs_done (length cols) 0 (Suc 0) = {}"
    by (auto simp: pairs_done_def)
  then show ?case using inv by simp
next
  case (Suc m)
  then have IH: "assoc_inv (pair_stat ns data cstats) cols (pairs_done (length cols) m (Suc m))
             (fold (assoc_row ns cols cstats data) [0 ..< m] M)"
    and m: "m < length cols"
    by simp_all
  show ?case
    using assoc_row_inv [OF d m IH] by simp
qed

lemma assoc_init_inv:
  "assoc_inv f cols {} (fold (\<lambda>c assoc. assoc(c \<mapsto> Map.empty)) cols Map.empty)"
  by (auto simp: assoc_inv_def cell_def dom_def fold_upd_apply split: if_splits)

lemma assoc_loops_inv:
  assumes "distinct cols"
  shows "assoc_inv (pair_stat ns data cstats) cols {(a, b). a < b \<and> b < length cols}
           (assoc_loops ns cols cstats data)"
proof -
  have "pairs_done (length cols) (length cols) (Suc (length cols))
          = {(a, b). a < b \<and> b < length cols}"
    by (auto simp: pairs_done_def)
  then show ?thesis
    using assoc_outer_inv [OF assms assoc_init_inv, of "length cols" ns data cstats]
    by (simp add: assoc_loops_def)
qed


lemma assoc_loops_cell:
  assumes "distinct cols"
  shows "(cell (assoc_loops ns cols cstats data) x y = Some v) =
           (\<exists>i j. i < j \<and> j < length cols
                  \<and> ((x = cols ! i \<and> y = cols ! j) \<or> (x = cols ! j \<and> y = cols ! i))
                  \<and> v = pair_stat ns data cstats (cols ! i) (cols ! j) \<and> \<not> isNaN v)"
  using assoc_loops_inv [OF assms, of ns data cstats] by (simp add: assoc_inv_def)

lemma option_eq_by_Some: "(\<And>v. (a = Some v) = (b = Some v)) \<Longrightarrow> a = b"
  by (cases a; cases b) auto

lemma ex_pair_swap:
  "(\<exists>i j. A i j \<and> B j \<and> ((x = g i \<and> y = g j) \<or> (x = g j \<and> y = g i)) \<and> C i j \<and> D)
     = (\<exists>i j. A i j \<and> B j \<and> ((y = g i \<and> x = g j) \<or> (y = g j \<and> x = g i)) \<and> C i j \<and> D)"
  by blast

lemma assoc_loops_symmetric:
  assumes "distinct cols"
  shows "cell (assoc_loops ns cols cstats data) x y = cell (assoc_loops ns cols cstats data) y x"
proof (rule option_eq_by_Some)
  fix v
  have "(\<exists>i j. i < j \<and> j < length cols
                  \<and> ((x = cols ! i \<and> y = cols ! j) \<or> (x = cols ! j \<and> y = cols ! i))
                  \<and> v = pair_stat ns data cstats (cols ! i) (cols ! j) \<and> \<not> isNaN v)
        = (\<exists>i j. i < j \<and> j < length cols
                  \<and> ((y = cols ! i \<and> x = cols ! j) \<or> (y = cols ! j \<and> x = cols ! i))
                  \<and> v = pair_stat ns data cstats (cols ! i) (cols ! j) \<and> \<not> isNaN v)"
    by (rule ex_pair_swap)
  then show "(cell (assoc_loops ns cols cstats data) x y = Some v)
           = (cell (assoc_loops ns cols cstats data) y x = Some v)"
    by (simp only: assoc_loops_cell [OF assms])
qed



lemma assoc_loops_exact:
  assumes d: "distinct cols" and s: "sorted cols"
    and x: "x \<in> set cols" and y: "y \<in> set cols" and lt: "x < y"
  shows "cell (assoc_loops ns cols cstats data) x y =
           (if isNaN (pair_stat ns data cstats x y) then None
            else Some (pair_stat ns data cstats x y))"
proof -
  let ?M = "assoc_loops ns cols cstats data"
  obtain i where i: "i < length cols" "x = cols ! i"
    using x by (auto simp: in_set_conv_nth)
  obtain j where j: "j < length cols" "y = cols ! j"
    using y by (auto simp: in_set_conv_nth)
  have ij: "i < j"
  proof (rule ccontr)
    assume "\<not> i < j"
    then have "cols ! j \<le> cols ! i"
      using s i(1) by (intro sorted_nth_mono) simp_all
    then show False
      using lt i(2) j(2) by simp
  qed
  have some: "cell ?M x y = Some v \<Longrightarrow> v = pair_stat ns data cstats x y \<and> \<not> isNaN v" for v
  proof -
    assume "cell ?M x y = Some v"
    then obtain a b where ab: "a < b" "b < length cols"
      and e: "(x = cols ! a \<and> y = cols ! b) \<or> (x = cols ! b \<and> y = cols ! a)"
      and v: "v = pair_stat ns data cstats (cols ! a) (cols ! b)" "\<not> isNaN v"
      unfolding assoc_loops_cell [OF d] by (elim exE conjE)
    have "cols ! a \<le> cols ! b"
      using s ab by (intro sorted_nth_mono) simp_all
    then have "\<not> (x = cols ! b \<and> y = cols ! a)"
      using lt by auto
    with e have "x = cols ! a" "y = cols ! b"
      by blast+
    then show ?thesis
      using v by simp
  qed
  show ?thesis
  proof (cases "isNaN (pair_stat ns data cstats x y)")
    case True
    have "cell ?M x y = None"
    proof (rule ccontr)
      assume "cell ?M x y \<noteq> None"
      then obtain v where "cell ?M x y = Some v"
        by (cases "cell ?M x y") simp_all
      then show False
        using some [of v] True by auto
    qed
    then show ?thesis
      using True by simp
  next
    case False
    have "cell ?M x y = Some (pair_stat ns data cstats x y)"
      unfolding assoc_loops_cell [OF d]
      by (intro exI [of _ i] exI [of _ j] conjI ij j(1) disjI1 i(2) j(2) False)
        (simp add: i(2) j(2))
    then show ?thesis
      using False by simp
  qed
qed




lemma associationMatrix_profile_value:
  "associationMatrix (profile_value ns data options) =
     (if truthy (opt_associationMatrix options)
      then Some (if 50 < length (columns_of data) then Map.empty
                 else assoc_loops ns (columns_of data)
                        (column_stats_of ns data (columns_of data)) data)
      else None)"
  by (simp add: profile_value_def Let_def)

lemma columnStats_profile_value_eq:
  "columnStats (profile_value ns data options) = column_stats_of ns data (columns_of data)"
  by (simp add: profile_value_def Let_def)







lemma type_of_column_numeric:
  assumes "col \<in> set (columns_of data)"
    and "new_Set (map typeof (nonMissing_values data col)) = [''number'']"
  shows "type_of_column (columnStats (profile_value ns data options)) col = Numeric"
proof -
  have "numericStats (column_stat ns data (length data) col) \<noteq> None"
    by (simp only: column_stat_numeric_iff column_stat_types assms(2))
  then show ?thesis
    using assms(1) by (simp add: type_of_column_def columnStats_profile_value getType_def)
qed



section \<open>Pearson correlation and non-finite numbers\<close>

lemma paired_infinity:
  "paired_numbers infinity_table ''a'' ''b'' = [(Fin 1, Fin 2), (Fin 2, Fin 4), (Fin 3, Fin 6), (PosInf, Fin 8)]"
  "paired_numbers (take 3 infinity_table) ''a'' ''b''
     = [(Fin 1, Fin 2), (Fin 2, Fin 4), (Fin 3, Fin 6)]"
  by (simp_all add: paired_numbers_def infinity_table_def get_def)

lemma pearson_infinity:
  "pearsonFromData infinity_table ''a'' ''b'' = NaN"
  "pearsonFromData (take 3 infinity_table) ''a'' ''b'' = Fin 1"
  by (simp_all add: pearsonFromData_def paired_infinity Let_def num_sub_def num_sq_def
      inf_of_sign_def)

lemma columns_infinity: "columns_of infinity_table = [''a'', ''b'']"
  by (simp add: columns_of_def all_keys_def infinity_table_def Object_keys_def set_add_def)

lemma nonMissing_infinity:
  "nonMissing_values infinity_table ''a'' = [Num (Fin 1), Num (Fin 2), Num (Fin 3), Num PosInf]"
  "nonMissing_values infinity_table ''b'' = [Num (Fin 2), Num (Fin 4), Num (Fin 6), Num (Fin 8)]"
  by (simp_all add: nonMissing_values_def infinity_table_def has_key_def get_def notMissing_def)

text \<open>
  Claim C5 says that the Pearson cell of two numeric columns is computed over exactly
  the rows where both values are present finite numbers, and is defined and stored
  when there are at least 2 such rows and both variables have nonzero variance over
  them. The code pairs every row where both values are of type number, the
  non-finite ones too: on a table whose finite rows are perfectly correlated (the
  correlation of the first three rows alone is 1) and whose last row holds an
  infinity, both columns are numeric, the four rows are paired, the correlation is
  \<open>NaN\<close> and the cell is omitted in both orders.
\<close>

theorem pearson_keeps_infinite_rows:
  "\<exists>r am. profile print_num infinity_table all_options = Inr r
     \<and> type_of_column (columnStats r) ''a'' = Numeric
     \<and> type_of_column (columnStats r) ''b'' = Numeric
     \<and> paired_numbers infinity_table ''a'' ''b''
           = [(Fin 1, Fin 2), (Fin 2, Fin 4), (Fin 3, Fin 6), (PosInf, Fin 8)]
     \<and> pearsonFromData infinity_table ''a'' ''b'' = NaN
     \<and> pearsonFromData (take 3 infinity_table) ''a'' ''b'' = Fin 1
     \<and> associationMatrix r = Some am
     \<and> cell am ''a'' ''b'' = None \<and> cell am ''b'' ''a'' = None"
proof -
  let ?r = "profile_value print_num infinity_table all_options"
  let ?cols = "columns_of infinity_table"
  let ?am = "assoc_loops print_num ?cols (column_stats_of print_num infinity_table ?cols)
               infinity_table"
  have p: "profile print_num infinity_table all_options = Inr ?r"
    by (rule profile_nonempty) (simp add: infinity_table_def)
  have ta: "type_of_column (columnStats ?r) ''a'' = Numeric"
    and tb: "type_of_column (columnStats ?r) ''b'' = Numeric"
    by (rule type_of_column_numeric;
        simp add: columns_infinity nonMissing_infinity new_Set_def set_add_def)+
  have am: "associationMatrix ?r = Some ?am"
    by (simp add: associationMatrix_profile_value all_options_def truthy_def columns_infinity)
  have st: "pair_stat print_num infinity_table (column_stats_of print_num infinity_table ?cols)
              ''a'' ''b'' = NaN"
    using ta tb
    by (simp add: pair_stat_def pair_value_def columnStats_profile_value_eq pearson_infinity)
  have mem: "''a'' \<in> set ?cols" "''b'' \<in> set ?cols"
    by (simp_all add: columns_infinity)
  have lt: "''a'' < ''b''"
    by simp
  have ab: "cell ?am ''a'' ''b'' = None"
    by (simp only: assoc_loops_exact [OF distinct_columns_of sorted_columns_of mem lt] st
        isNaN.simps if_True)
  have ba: "cell ?am ''b'' ''a'' = None"
    by (simp only: assoc_loops_symmetric [OF distinct_columns_of, of _ _ _ _ "''b''" "''a''"] ab)
  show ?thesis
    by (intro exI [of _ ?r] exI [of _ ?am] conjI p ta tb paired_infinity(1) pearson_infinity
        am ab ba)
qed

section \<open>Functional dependencies\<close>




























end
